theory Spec2Isabelle
  imports Main "HOL-Library.Sublist" "HOL-Library.Char_ord" "HOL-Library.List_Lexorder"
begin

section \<open>Python values: exceptions, strings and dictionaries\<close>

text \<open>
  An exception that the source does not catch is a value: a computation that can raise
  returns \<open>py_error + 'a\<close>, with \<open>Inl\<close> for the exception.
\<close>

datatype py_error =
  AttributeError | TypeError | KeyError | IndexError | ZeroDivisionError | ValueError | OSError

definition and_then :: "'e + 'a \<Rightarrow> ('a \<Rightarrow> 'e + 'b) \<Rightarrow> 'e + 'b" where
  "and_then r f = (case r of Inl e \<Rightarrow> Inl e | Inr x \<Rightarrow> f x)"

text \<open>The results of a list of computations, or the first exception among them.\<close>

fun sequence :: "('e + 'a) list \<Rightarrow> 'e + 'a list" where
  "sequence [] = Inr []"
| "sequence (r # rs) = and_then r (\<lambda>x. and_then (sequence rs) (\<lambda>xs. Inr (x # xs)))"

text \<open>
  A Python \<open>str\<close> is modelled as a \<^typ>\<open>string\<close>, one \<^typ>\<open>char\<close> per code point
  (text in the Latin-1 range).  \<open>str.strip()\<close> removes leading and trailing whitespace;
  below code point 256 Python's whitespace is 9..13, 28..32, 133 and 160.
\<close>

definition isspace :: "char \<Rightarrow> bool" where
  "isspace c = (let n = (of_char c :: nat) in
     (9 \<le> n \<and> n \<le> 13) \<or> (28 \<le> n \<and> n \<le> 32) \<or> n = 133 \<or> n = 160)"

definition strip_chars :: "(char \<Rightarrow> bool) \<Rightarrow> string \<Rightarrow> string" where
  "strip_chars P s = rev (dropWhile P (rev (dropWhile P s)))"

definition strip :: "string \<Rightarrow> string" where
  "strip s = strip_chars isspace s"

definition dquote :: char where
  "dquote = CHR 0x22"

definition squote :: char where
  "squote = CHR 0x27"

text \<open>\<open>s.strip(c)\<close> for a one-character argument: every leading and trailing \<open>c\<close> goes.\<close>

definition strip_char :: "char \<Rightarrow> string \<Rightarrow> string" where
  "strip_char c s = strip_chars (\<lambda>x. x = c) s"

definition startswith_hash :: "string \<Rightarrow> bool" where
  "startswith_hash s = (case s of [] \<Rightarrow> False | c # _ \<Rightarrow> c = CHR ''#'')"

text \<open>\<open>line.split('=', 1)\<close> on a line that contains \<open>=\<close>: the text before the first
  \<open>=\<close> and the text after it.\<close>

definition split_eq :: "string \<Rightarrow> string \<times> string" where
  "split_eq s = (takeWhile (\<lambda>c. c \<noteq> CHR ''='') s, tl (dropWhile (\<lambda>c. c \<noteq> CHR ''='') s))"

text \<open>
  A Python \<open>dict\<close> keeps its keys in the order of their first insertion; assigning to a key
  that is already there replaces the value and leaves the key where it is.
\<close>

type_synonym ('k, 'v) dict = "('k \<times> 'v) list"

fun dict_set :: "('k, 'v) dict \<Rightarrow> 'k \<Rightarrow> 'v \<Rightarrow> ('k, 'v) dict" where
  "dict_set [] k v = [(k, v)]"
| "dict_set ((k', v') # d) k v =
     (if k' = k then (k, v) # d else (k', v') # dict_set d k v)"

definition dict_get :: "('k, 'v) dict \<Rightarrow> 'k \<Rightarrow> 'v option" where
  "dict_get d k = map_of d k"

definition dict_keys :: "('k, 'v) dict \<Rightarrow> 'k list" where
  "dict_keys d = map fst d"

subsection \<open>Decoded JSON\<close>

text \<open>
  What \<open>response.json()\<close> and \<open>json.loads\<close> return.  An object is the list of the items
  of the decoded \<open>dict\<close>, whose keys are distinct.  A number is modelled by an integer: the
  programs only test numbers for being zero and print them.
\<close>

datatype json =
    JNull
  | JBool bool
  | JNum int
  | JStr string
  | JArr "json list"
  | JObj "(string \<times> json) list"

text \<open>Truth value testing, as \<open>if x\<close> and \<open>x and y\<close> do it.\<close>

fun truthy :: "json \<Rightarrow> bool" where
  "truthy JNull = False"
| "truthy (JBool b) = b"
| "truthy (JNum n) = (n \<noteq> 0)"
| "truthy (JStr s) = (s \<noteq> [])"
| "truthy (JArr xs) = (xs \<noteq> [])"
| "truthy (JObj kvs) = (kvs \<noteq> [])"

text \<open>\<open>x.get(key, dflt)\<close>, with \<open>dflt\<close> the default: only a \<open>dict\<close> has the method.\<close>

fun py_get :: "json \<Rightarrow> string \<Rightarrow> json \<Rightarrow> py_error + json" where
  "py_get (JObj kvs) key dflt = Inr (case map_of kvs key of None \<Rightarrow> dflt | Some v \<Rightarrow> v)"
| "py_get _ key dflt = Inl AttributeError"

text \<open>\<open>len(x)\<close>.\<close>

fun py_len :: "json \<Rightarrow> py_error + nat" where
  "py_len (JStr s) = Inr (length s)"
| "py_len (JArr xs) = Inr (length xs)"
| "py_len (JObj kvs) = Inr (length kvs)"
| "py_len _ = Inl TypeError"

text \<open>\<open>x[0]\<close>.  The keys of a decoded object are strings, so the key \<open>0\<close> is never there.\<close>

fun py_first :: "json \<Rightarrow> py_error + json" where
  "py_first (JArr []) = Inl IndexError"
| "py_first (JArr (x # xs)) = Inr x"
| "py_first (JStr []) = Inl IndexError"
| "py_first (JStr (c # cs)) = Inr (JStr [c])"
| "py_first (JObj kvs) = Inl KeyError"
| "py_first _ = Inl TypeError"

text \<open>The elements of \<open>x[:n]\<close>.  A \<open>dict\<close> cannot be sliced (a \<open>TypeError\<close> up to
  Python 3.11).\<close>

fun py_take :: "nat \<Rightarrow> json \<Rightarrow> py_error + json list" where
  "py_take n (JArr xs) = Inr (take n xs)"
| "py_take n (JStr s) = Inr (map (\<lambda>c. JStr [c]) (take n s))"
| "py_take n _ = Inl TypeError"

text \<open>\<open>x[key]\<close> for a string \<open>key\<close>.\<close>

fun py_getitem :: "json \<Rightarrow> string \<Rightarrow> py_error + json" where
  "py_getitem (JObj kvs) key = (case map_of kvs key of None \<Rightarrow> Inl KeyError | Some v \<Rightarrow> Inr v)"
| "py_getitem _ key = Inl TypeError"


text \<open>\<open>', '.join(xs)\<close>: every element has to be a \<open>str\<close>.\<close>

fun py_join :: "json list \<Rightarrow> py_error + string" where
  "py_join [] = Inr []"
| "py_join [JStr s] = Inr s"
| "py_join (JStr s # x # xs) = and_then (py_join (x # xs)) (\<lambda>rest. Inr (s @ '', '' @ rest))"
| "py_join _ = Inl TypeError"

text \<open>\<open>s.replace(old, new)\<close> for a non-empty \<open>old\<close>, from left to right.\<close>

function replace :: "string \<Rightarrow> string \<Rightarrow> string \<Rightarrow> string" where
  "replace old new [] = []"
| "replace old new (c # cs) =
     (if old \<noteq> [] \<and> prefix old (c # cs)
      then new @ replace old new (drop (length old) (c # cs))
      else c # replace old new cs)"
  by pat_completeness auto
termination
  by (relation "measure (\<lambda>(old, new, s). length s)") auto

text \<open>\<open>s.split(sep)\<close> for a non-empty \<open>sep\<close>: \<open>acc\<close> holds, reversed, the piece being read.\<close>

function split_from :: "string \<Rightarrow> string \<Rightarrow> string \<Rightarrow> string list" where
  "split_from sep acc [] = [rev acc]"
| "split_from sep acc (c # cs) =
     (if sep \<noteq> [] \<and> prefix sep (c # cs)
      then rev acc # split_from sep [] (drop (length sep) (c # cs))
      else split_from sep (c # acc) cs)"
  by pat_completeness auto
termination
  by (relation "measure (\<lambda>(sep, acc, s). length s)") auto

definition py_split :: "string \<Rightarrow> string \<Rightarrow> string list" where
  "py_split sep s = split_from sep [] s"

text \<open>\<open>s.capitalize()\<close> on ASCII text: the first letter in upper case, the others in
  lower case.\<close>

definition upper_char :: "char \<Rightarrow> char" where
  "upper_char c = (if CHR ''a'' \<le> c \<and> c \<le> CHR ''z'' then char_of (of_char c - (32 :: nat)) else c)"

definition lower_char :: "char \<Rightarrow> char" where
  "lower_char c = (if CHR ''A'' \<le> c \<and> c \<le> CHR ''Z'' then char_of (of_char c + (32 :: nat)) else c)"

definition capitalize :: "string \<Rightarrow> string" where
  "capitalize s = (case s of [] \<Rightarrow> [] | c # cs \<Rightarrow> upper_char c # map lower_char cs)"

section \<open>manage-secrets.py: the secrets synchronizer\<close>

subsection \<open>\<open>SecretsManager.load_secrets\<close>\<close>

text \<open>
  The body of the loop over the lines of \<open>.dev.vars\<close>.  \<open>line_entry\<close> is the
  assignment \<open>self.secrets[key] = value\<close> the line leads to, if it leads to one;
  \<open>load_line\<close> is \<open>self.secrets\<close> after the line.
\<close>

definition line_entry :: "string \<Rightarrow> (string \<times> string) option" where
  "line_entry raw =
     (let line = strip raw in
      if line = [] \<or> startswith_hash line then None
      else if CHR ''='' \<in> set line then
        (let (key0, value0) = split_eq line;
             key = strip key0;
             value = strip_char squote (strip_char dquote (strip value0))
         in if key \<noteq> [] \<and> value \<noteq> [] then Some (key, value) else None)
      else None)"

definition load_line :: "(string, string) dict \<Rightarrow> string \<Rightarrow> (string, string) dict" where
  "load_line secrets raw =
     (case line_entry raw of
        None \<Rightarrow> secrets
      | Some (key, value) \<Rightarrow> dict_set secrets key value)"

fun load_lines :: "(string, string) dict \<Rightarrow> string list \<Rightarrow> (string, string) dict" where
  "load_lines secrets [] = secrets"
| "load_lines secrets (raw # rest) = load_lines (load_line secrets raw) rest"

text \<open>
  \<open>load_secrets\<close> starts from the empty \<open>self.secrets\<close> of \<open>__init__\<close>.  The file is
  \<open>None\<close> when \<open>.dev.vars\<close> does not exist, otherwise its lines as the file iterator
  yields them.  The result is the returned flag and \<open>self.secrets\<close>.
\<close>

definition load_secrets :: "string list option \<Rightarrow> bool \<times> (string, string) dict" where
  "load_secrets file =
     (case file of
        None \<Rightarrow> (False, [])
      | Some ls \<Rightarrow> (let secrets = load_lines [] ls in (secrets \<noteq> [], secrets)))"

subsection \<open>\<open>SecretsManager.list_secrets\<close>\<close>

definition masked :: "string \<Rightarrow> string" where
  "masked v =
     (if length v > 20 then take 10 v @ ''...'' @ drop (length v - 10) v
      else replicate (length v) CHR ''*'')"

text \<open>The rows printed by listing mode, in order: the key and the masked value.\<close>

fun list_rows :: "(string, string) dict \<Rightarrow> string list \<Rightarrow> py_error + (string \<times> string) list" where
  "list_rows secrets [] = Inr []"
| "list_rows secrets (key # keys) =
     (case dict_get secrets key of
        None \<Rightarrow> Inl KeyError
      | Some v \<Rightarrow>
          (case list_rows secrets keys of
             Inl e \<Rightarrow> Inl e
           | Inr rows \<Rightarrow> Inr ((key, masked v) # rows)))"

definition list_secrets :: "(string, string) dict \<Rightarrow> py_error + (string \<times> string) list" where
  "list_secrets secrets = list_rows secrets (sort (dict_keys secrets))"

subsection \<open>\<open>SecretsManager.upload_secret\<close>\<close>

text \<open>
  What \<open>subprocess.run\<close> does with one invocation of the external CLI: it completes with
  a return code, the captured standard output and the captured standard error, it times
  out, or it raises something else.  The CLI is outside the program: it is a parameter,
  a function of the invocations made so far and of the present one (the command line and
  the bytes on standard input).
\<close>

datatype proc_result = Completed int string string | TimeoutExpired | OtherException

type_synonym invocation = "string list \<times> string"

type_synonym cli = "invocation list \<Rightarrow> invocation \<Rightarrow> proc_result"

definition upload_cmd :: "string \<Rightarrow> string \<Rightarrow> string list" where
  "upload_cmd key environment =
     (let env_flag = (if environment \<noteq> [] \<and> environment \<noteq> ''default''
                      then ''--env='' @ environment else [])
      in [''npx'', ''wrangler'', ''secret'', ''put'', key] @ (if env_flag \<noteq> [] then [env_flag] else []))"

text \<open>The returned flag, and the invocations made so far.\<close>

definition upload_secret ::
  "cli \<Rightarrow> invocation list \<Rightarrow> string \<Rightarrow> string \<Rightarrow> string \<Rightarrow> bool \<times> invocation list" where
  "upload_secret run log key value environment =
     (let inv = (upload_cmd key environment, value) in
      (case run log inv of
         Completed returncode out err \<Rightarrow> returncode = 0 \<and> sublist ''Success'' out
       | TimeoutExpired \<Rightarrow> False
       | OtherException \<Rightarrow> False,
       log @ [inv]))"

subsection \<open>\<open>SecretsManager.sync_to_environment\<close> and \<open>sync_all_environments\<close>\<close>

text \<open>
  The loop over \<open>keys_to_sync\<close>; the state is \<open>success_count\<close>, \<open>fail_count\<close> and the
  invocations made so far.
\<close>

fun sync_keys ::
  "cli \<Rightarrow> (string, string) dict \<Rightarrow> string \<Rightarrow> string list \<Rightarrow> nat \<times> nat \<times> invocation list
     \<Rightarrow> nat \<times> nat \<times> invocation list" where
  "sync_keys run secrets environment [] st = st"
| "sync_keys run secrets environment (key # keys) (success_count, fail_count, log) =
     (case dict_get secrets key of
        None \<Rightarrow> sync_keys run secrets environment keys (success_count, fail_count, log)
      | Some value \<Rightarrow>
          (case upload_secret run log key value environment of
             (True, log') \<Rightarrow>
               sync_keys run secrets environment keys (success_count + 1, fail_count, log')
           | (False, log') \<Rightarrow>
               sync_keys run secrets environment keys (success_count, fail_count + 1, log')))"

text \<open>\<open>keys\<close> is \<open>None\<close> when \<open>--keys\<close> was not given; an empty list is as falsy as \<open>None\<close>.\<close>

definition keys_to_sync :: "(string, string) dict \<Rightarrow> string list option \<Rightarrow> string list" where
  "keys_to_sync secrets keys =
     (case keys of
        None \<Rightarrow> dict_keys secrets
      | Some ks \<Rightarrow> if ks \<noteq> [] then ks else dict_keys secrets)"

definition sync_to_environment ::
  "cli \<Rightarrow> invocation list \<Rightarrow> (string, string) dict \<Rightarrow> string \<Rightarrow> string list option
     \<Rightarrow> (nat \<times> nat) \<times> invocation list" where
  "sync_to_environment run log secrets environment keys =
     (case sync_keys run secrets environment (keys_to_sync secrets keys) (0, 0, log) of
        (success_count, fail_count, log') \<Rightarrow> ((success_count, fail_count), log'))"

text \<open>The loop over the environments; the state is \<open>total_success\<close>, \<open>total_fail\<close> and
  the invocations made so far.\<close>

fun sync_envs ::
  "cli \<Rightarrow> (string, string) dict \<Rightarrow> string list option \<Rightarrow> string list \<Rightarrow> nat \<times> nat \<times> invocation list
     \<Rightarrow> nat \<times> nat \<times> invocation list" where
  "sync_envs run secrets keys [] st = st"
| "sync_envs run secrets keys (env # envs) (total_success, total_fail, log) =
     (case sync_to_environment run log secrets env keys of
        ((success, fail), log') \<Rightarrow>
          sync_envs run secrets keys envs (total_success + success, total_fail + fail, log'))"

text \<open>The returned flag, the two totals of the final summary, and the invocations made.\<close>

definition sync_all_environments ::
  "cli \<Rightarrow> invocation list \<Rightarrow> (string, string) dict \<Rightarrow> string list \<Rightarrow> string list option
     \<Rightarrow> bool \<times> nat \<times> nat \<times> invocation list" where
  "sync_all_environments run log secrets environments keys =
     (case sync_envs run secrets keys environments (0, 0, log) of
        (total_success, total_fail, log') \<Rightarrow> (total_fail = 0, total_success, total_fail, log'))"

subsection \<open>\<open>main\<close> of manage-secrets.py\<close>

text \<open>
  The parsed command line: \<open>--list\<close>, \<open>--env\<close>, \<open>--all\<close> and \<open>--keys\<close>.  The result of
  \<open>main\<close> is the exit status of the process and the CLI invocations it made.
\<close>

record args =
  arg_list :: bool
  arg_env :: "string list option"
  arg_all :: bool
  arg_keys :: "string list option"

definition main_secrets :: "cli \<Rightarrow> string list option \<Rightarrow> args \<Rightarrow> nat \<times> invocation list" where
  "main_secrets run file a =
     (case load_secrets file of
        (False, secrets) \<Rightarrow> (1, [])
      | (True, secrets) \<Rightarrow>
          if arg_list a then
            (case list_secrets secrets of Inl e \<Rightarrow> (1, []) | Inr rows \<Rightarrow> (0, []))
          else if arg_all a then
            (case sync_all_environments run [] secrets [''default'', ''production''] (arg_keys a) of
               (success, total_success, total_fail, log) \<Rightarrow> (if success then 0 else 1, log))
          else
            (case arg_env a of
               Some (e # es) \<Rightarrow>
                 (case sync_all_environments run [] secrets (e # es) (arg_keys a) of
                    (success, total_success, total_fail, log) \<Rightarrow> (if success then 0 else 1, log))
             | _ \<Rightarrow> (1, [])))"

section \<open>test-cloudflare-token.py: the token tester\<close>

subsection \<open>\<open>load_env_vars\<close>\<close>

text \<open>One iteration of the loop over the lines of \<open>.dev.vars\<close>.\<close>

definition env_line :: "(string, string) dict \<Rightarrow> string \<Rightarrow> (string, string) dict" where
  "env_line env_vars raw =
     (let line = strip raw in
      if line \<noteq> [] \<and> \<not> startswith_hash line \<and> CHR ''='' \<in> set line then
        (let (key, value0) = split_eq line;
             value = strip_char squote (strip_char dquote value0)
         in dict_set env_vars key value)
      else env_vars)"

fun env_lines :: "(string, string) dict \<Rightarrow> string list \<Rightarrow> (string, string) dict" where
  "env_lines env_vars [] = env_vars"
| "env_lines env_vars (raw # rest) = env_lines (env_line env_vars raw) rest"

text \<open>\<open>None\<close> is \<open>sys.exit(1)\<close>, taken when the file does not exist.\<close>

definition load_env_vars :: "string list option \<Rightarrow> (string, string) dict option" where
  "load_env_vars file = (case file of None \<Rightarrow> None | Some ls \<Rightarrow> Some (env_lines [] ls))"

subsection \<open>The Cloudflare API seen from the program\<close>

text \<open>
  A request is its method, its URL and the bearer token of its \<open>Authorization\<close> header.
  What \<open>requests\<close> makes of it: a timeout, another \<open>RequestException\<close>, or a response with
  a status code and a body; the body is \<open>None\<close> when it is not JSON (\<open>response.json()\<close>
  raises), otherwise the decoded value.  The network is outside the program: it is a
  parameter, a function of the requests sent so far and of the present one.
\<close>

type_synonym request = "string \<times> string \<times> string"

datatype http_result = Timeout | RequestException | Response nat "json option"

type_synonym backend = "request list \<Rightarrow> request \<Rightarrow> http_result"

text \<open>The messages of the probes, by their content; the colours and the wording are
  display only.\<close>

datatype message =
    Msg_Success
  | Msg_Error json json
  | Msg_Timeout
  | Msg_Request_Failed
  | Msg_Token json json json
  | Msg_Found nat string
  | Msg_None_Found
  | Msg_No_Accounts

subsection \<open>\<open>CloudflareTokenTester\<close>\<close>

record tester =
  token :: string
  account_id :: string
  token_type :: string
  verify_url :: "string option"
  results :: "(string \<times> bool \<times> message) list"

definition base_url :: string where
  "base_url = ''https://api.cloudflare.com/client/v4''"

text \<open>\<open>__init__\<close>.\<close>

definition new_tester :: "string \<Rightarrow> string \<Rightarrow> string \<Rightarrow> string option \<Rightarrow> tester" where
  "new_tester tok acc ty vurl =
     \<lparr>token = tok, account_id = acc, token_type = ty, verify_url = vurl, results = []\<rparr>"

text \<open>\<open>print_test\<close>: a result is recorded unless \<open>success\<close> is \<open>None\<close> (a skipped test).\<close>

definition print_test :: "tester \<Rightarrow> string \<Rightarrow> bool option \<Rightarrow> message \<Rightarrow> tester" where
  "print_test t name success msg =
     (case success of
        None \<Rightarrow> t
      | Some b \<Rightarrow> t\<lparr>results := results t @ [(name, b, msg)]\<rparr>)"

text \<open>
  The \<open>else\<close> branch of \<open>make_request\<close>: the first error of the envelope, if there is one.
\<close>

definition request_error :: "json \<Rightarrow> py_error + bool \<times> message \<times> json" where
  "request_error data =
     and_then (py_get data ''errors'' (JArr [])) (\<lambda>errors.
       if truthy errors then
         and_then (py_first errors) (\<lambda>e0.
         and_then (py_get e0 ''message'' (JStr ''Unknown error'')) (\<lambda>error_msg.
         and_then (py_first errors) (\<lambda>e0'.
         and_then (py_get e0' ''code'' (JStr ''N/A'')) (\<lambda>error_code.
           Inr (False, Msg_Error error_code error_msg, data)))))
       else Inr (False, Msg_Error (JStr ''N/A'') (JStr ''Unknown error''), data))"

text \<open>
  \<open>make_request\<close> catches \<open>Timeout\<close>, \<open>RequestException\<close> and \<open>JSONDecodeError\<close>, and nothing
  else; a body that is not JSON makes \<open>response.json()\<close> raise an exception of the last
  two classes.  The result is what it returns or the exception it lets through, and the requests
  sent so far.
\<close>

definition make_request ::
  "backend \<Rightarrow> request list \<Rightarrow> tester \<Rightarrow> string \<Rightarrow> string
     \<Rightarrow> (py_error + bool \<times> message \<times> json) \<times> request list" where
  "make_request bk log t method endpoint =
     (let req = (method, base_url @ endpoint, token t) in
      (case bk log req of
         Timeout \<Rightarrow> Inr (False, Msg_Timeout, JObj [])
       | RequestException \<Rightarrow> Inr (False, Msg_Request_Failed, JObj [])
       | Response status None \<Rightarrow> Inr (False, Msg_Request_Failed, JObj [])
       | Response status (Some data) \<Rightarrow>
           if status = 200 then
             and_then (py_get data ''success'' JNull) (\<lambda>success.
               if truthy success then Inr (True, Msg_Success, data) else request_error data)
           else request_error data,
       log @ [req]))"

text \<open>
  Each probe returns its \<open>success\<close> flag and the tester with the result recorded, or the
  exception that escaped, and the requests sent so far.
\<close>

type_synonym probe =
  "backend \<Rightarrow> request list \<Rightarrow> tester \<Rightarrow> (py_error + bool \<times> tester) \<times> request list"

definition test_token_verification :: probe where
  "test_token_verification bk log t =
     (let name = capitalize (token_type t) @ '' Token Verification'';
          verify_path = (case verify_url t of
                           None \<Rightarrow> ''/user/tokens/verify''
                         | Some u \<Rightarrow> if u \<noteq> [] then replace base_url [] u
                                     else ''/user/tokens/verify'')
      in case make_request bk log t ''GET'' verify_path of
           (r, log') \<Rightarrow>
             (and_then r (\<lambda>(success, msg, data).
                if success then
                  and_then (py_get data ''result'' (JObj [])) (\<lambda>result.
                  and_then (py_get result ''id'' (JStr ''N/A'')) (\<lambda>token_id.
                  and_then (py_get result ''status'' (JStr ''N/A'')) (\<lambda>status.
                  and_then (py_get result ''expires_on'' (JStr ''Never'')) (\<lambda>expires_on.
                    Inr (success, print_test t name (Some True) (Msg_Token token_id status expires_on))))))
                else Inr (success, print_test t name (Some False) msg)),
              log'))"

text \<open>
  The six listing probes have one shape: a GET, then on success the length of the result
  and the names of its first items, which are joined into the message.  They differ in
  the endpoint, the name of the test, the field that names an item, the number of items
  named, and in what an empty result is recorded as.
\<close>

definition list_probe ::
  "string \<Rightarrow> string \<Rightarrow> string \<Rightarrow> nat \<Rightarrow> bool \<times> message \<Rightarrow> probe" where
  "list_probe endpoint name field n on_empty bk log t =
     (case make_request bk log t ''GET'' endpoint of
        (r, log') \<Rightarrow>
          (and_then r (\<lambda>(success, msg, data).
             if success then
               and_then (py_get data ''result'' (JArr [])) (\<lambda>items.
               and_then (py_len items) (\<lambda>count.
                 if count > 0 then
                   and_then (py_take n items) (\<lambda>first.
                   and_then (sequence (map (\<lambda>x. py_get x field (JStr ''Unnamed'')) first)) (\<lambda>names.
                   and_then (py_join names) (\<lambda>joined.
                     Inr (success, print_test t name (Some True) (Msg_Found count joined)))))
                 else Inr (success, print_test t name (Some (fst on_empty)) (snd on_empty))))
             else Inr (success, print_test t name (Some False) msg)),
           log'))"

definition test_account_access :: probe where
  "test_account_access =
     list_probe ''/accounts'' ''List Accounts'' ''name'' 3 (False, Msg_No_Accounts)"

definition test_workers_list :: probe where
  "test_workers_list bk log t =
     list_probe (''/accounts/'' @ account_id t @ ''/workers/scripts'')
       ''List Workers Scripts'' ''id'' 5 (True, Msg_None_Found) bk log t"

definition test_d1_databases :: probe where
  "test_d1_databases bk log t =
     list_probe (''/accounts/'' @ account_id t @ ''/d1/database'')
       ''List D1 Databases'' ''name'' 3 (True, Msg_None_Found) bk log t"

definition test_kv_namespaces :: probe where
  "test_kv_namespaces bk log t =
     list_probe (''/accounts/'' @ account_id t @ ''/storage/kv/namespaces'')
       ''List KV Namespaces'' ''title'' 3 (True, Msg_None_Found) bk log t"

definition test_ai_models :: probe where
  "test_ai_models bk log t =
     list_probe (''/accounts/'' @ account_id t @ ''/ai/models/search'')
       ''List AI Models'' ''name'' 3 (True, Msg_None_Found) bk log t"

definition test_api_tokens_list :: probe where
  "test_api_tokens_list bk log t =
     list_probe (if token_type t = ''account'' then ''/accounts/'' @ account_id t @ ''/tokens''
                 else ''/user/tokens'')
       ''List API Tokens'' ''name'' 3 (True, Msg_None_Found) bk log t"

text \<open>\<open>print_summary\<close> divides by the number of results for the success rate.\<close>

definition print_summary :: "tester \<Rightarrow> py_error + nat \<times> nat" where
  "print_summary t =
     (let total = length (results t);
          passed = length (filter (\<lambda>(name, success, msg). success) (results t));
          failed = total - passed
      in if total = 0 then Inl ZeroDivisionError else Inr (passed, failed))"

text \<open>The statements of \<open>run_all_tests\<close> one after the other: an exception ends the run.\<close>

fun run_probes ::
  "probe list \<Rightarrow> backend \<Rightarrow> request list \<Rightarrow> tester \<Rightarrow> (py_error + tester) \<times> request list" where
  "run_probes [] bk log t = (Inr t, log)"
| "run_probes (p # ps) bk log t =
     (case p bk log t of
        (Inl e, log') \<Rightarrow> (Inl e, log')
      | (Inr (success, t'), log') \<Rightarrow> run_probes ps bk log' t')"

definition battery :: "probe list" where
  "battery = [test_token_verification, test_account_access, test_workers_list,
     test_d1_databases, test_kv_namespaces, test_ai_models, test_api_tokens_list]"

text \<open>The returned pair \<open>passed, failed\<close> with the tester, or the exception that escaped.\<close>

definition run_all_tests ::
  "backend \<Rightarrow> request list \<Rightarrow> tester \<Rightarrow> (py_error + (nat \<times> nat) \<times> tester) \<times> request list" where
  "run_all_tests bk log t =
     (case run_probes battery bk log t of
        (r, log') \<Rightarrow>
          (and_then r (\<lambda>t'. and_then (print_summary t') (\<lambda>counts. Inr (counts, t'))),
           log'))"

subsection \<open>\<open>trigger_self_heal\<close>\<close>




subsection \<open>\<open>main\<close> of test-cloudflare-token.py\<close>







section \<open>extract-pr-comments.py: the comment extractor\<close>

subsection \<open>\<open>run_gh_command\<close>\<close>

text \<open>
  What \<open>subprocess.run\<close> makes of a shell command: the command exits with a return code,
  its standard output and its standard error, or \<open>subprocess.run\<close> raises something
  other than \<open>CalledProcessError\<close>.  The shell is outside the program: it is a parameter,
  a function of the commands run so far and of the present one.
\<close>

datatype run_result = Exited int string string | Run_Error

type_synonym shell = "string list \<Rightarrow> string \<Rightarrow> run_result"

text \<open>
  With \<open>check=True\<close> a return code other than 0 raises \<open>CalledProcessError\<close>, which is
  caught and gives \<open>None\<close>.  The result is the stripped output, \<open>None\<close>, or the exception
  that is not caught, and the commands run so far.
\<close>

definition run_gh_command ::
  "shell \<Rightarrow> string list \<Rightarrow> string \<Rightarrow> (py_error + string option) \<times> string list" where
  "run_gh_command sh log command =
     (case sh log command of
        Exited returncode out err \<Rightarrow>
          if returncode = 0 then Inr (Some (strip out)) else Inr None
      | Run_Error \<Rightarrow> Inl OSError,
      log @ [command])"

subsection \<open>\<open>get_open_pr\<close>\<close>

record pr_info =
  pr_number :: json
  pr_title :: json
  pr_repo :: string

text \<open>
  The owner and the repository of a remote URL; \<open>None\<close> where the source prints that the
  remote is not a GitHub repository or raises (an index out of range after \<open>split\<close>, an
  unpacking of other than two parts), which its \<open>except Exception\<close> turns into \<open>None\<close>.
\<close>

definition repo_of_url :: "string \<Rightarrow> (string \<times> string) option" where
  "repo_of_url remote_url =
     (if sublist ''github.com'' remote_url then
        (case (if prefix ''https://'' remote_url
               then py_split ''github.com/'' remote_url
               else py_split ''github.com:'' remote_url) of
           before # repo_part0 # rest \<Rightarrow>
             (let repo_part = (if suffix ''.git'' repo_part0
                               then take (length repo_part0 - 4) repo_part0 else repo_part0)
              in case py_split ''/'' repo_part of
                   [owner, repo] \<Rightarrow> Some (owner, repo)
                 | _ \<Rightarrow> None)
         | _ \<Rightarrow> None)
      else None)"

text \<open>
  \<open>json.loads\<close> and the built-in \<open>str\<close> of a decoded value are library functions: they are
  parameters, \<open>json_loads\<close> with \<open>None\<close> for a text that is not JSON.  Every exception
  inside \<open>get_open_pr\<close> is caught and gives \<open>None\<close>.
\<close>

definition pr_list_cmd :: "string \<Rightarrow> string \<Rightarrow> string" where
  "pr_list_cmd owner repo =
     ''gh pr list --repo '' @ owner @ ''/'' @ repo @ '' --json number,title,headRefName''"

definition first_pr :: "json \<Rightarrow> string \<Rightarrow> pr_info option" where
  "first_pr prs owner_repo =
     (if truthy prs then
        (case and_then (py_first prs) (\<lambda>pr.
                and_then (py_getitem pr ''number'') (\<lambda>number.
                and_then (py_getitem pr ''title'') (\<lambda>title.
                  Inr \<lparr>pr_number = number, pr_title = title, pr_repo = owner_repo\<rparr>))) of
           Inl e \<Rightarrow> None
         | Inr info \<Rightarrow> Some info)
      else None)"

definition get_open_pr ::
  "(string \<Rightarrow> json option) \<Rightarrow> shell \<Rightarrow> string list \<Rightarrow> pr_info option \<times> string list" where
  "get_open_pr json_loads sh log =
     (case run_gh_command sh log ''git config --get remote.origin.url'' of
        (Inl e, log1) \<Rightarrow> (None, log1)
      | (Inr None, log1) \<Rightarrow> (None, log1)
      | (Inr (Some remote_url), log1) \<Rightarrow>
          if remote_url = [] then (None, log1)
          else
            (case repo_of_url remote_url of
               None \<Rightarrow> (None, log1)
             | Some (owner, repo) \<Rightarrow>
                 (case run_gh_command sh log1 (pr_list_cmd owner repo) of
                    (Inl e, log2) \<Rightarrow> (None, log2)
                  | (Inr None, log2) \<Rightarrow> (None, log2)
                  | (Inr (Some prs_output), log2) \<Rightarrow>
                      if prs_output = [] then (None, log2)
                      else
                        (case json_loads prs_output of
                           None \<Rightarrow> (None, log2)
                         | Some prs \<Rightarrow> (first_pr prs (owner @ ''/'' @ repo), log2)))))"

subsection \<open>\<open>extract_pr_comments\<close>\<close>

definition backslash :: char where
  "backslash = CHR 0x5C"

definition newline :: char where
  "newline = CHR 0x0A"

text \<open>The command of the paginated fetch, with its \<open>jq\<close> filter
  \<open>.[] | "\(.path):\(.line) - \(.body)"\<close> in single quotes.\<close>

definition comments_cmd :: "(json \<Rightarrow> string) \<Rightarrow> pr_info \<Rightarrow> string" where
  "comments_cmd str_of info =
     ''gh api repos/'' @ pr_repo info @ ''/pulls/'' @ str_of (pr_number info)
       @ ''/comments --paginate --jq '' @ [squote] @ ''.[] | '' @ [dquote]
       @ [backslash] @ ''(.path):'' @ [backslash] @ ''(.line) - '' @ [backslash] @ ''(.body)''
       @ [dquote] @ [squote]"

text \<open>The list of comment lines, or \<open>None\<close> when the fetch failed or raised.\<close>

definition extract_pr_comments ::
  "(json \<Rightarrow> string) \<Rightarrow> shell \<Rightarrow> string list \<Rightarrow> pr_info \<Rightarrow> string list option \<times> string list" where
  "extract_pr_comments str_of sh log info =
     (case run_gh_command sh log (comments_cmd str_of info) of
        (Inl e, log') \<Rightarrow> (None, log')
      | (Inr None, log') \<Rightarrow> (None, log')
      | (Inr (Some comments_output), log') \<Rightarrow>
          (Some (if strip comments_output \<noteq> []
                 then py_split [newline] (strip comments_output) else []),
           log'))"

subsection \<open>\<open>save_comments_to_file\<close>\<close>

text \<open>
  The files of the working directory, by name, and what can go wrong with the report:
  nothing, \<open>open\<close> raises, or a \<open>write\<close> raises after some writes were made.  The source
  catches the exception and returns \<open>None\<close>; the file then holds the writes made before.
\<close>

type_synonym files = "string \<rightharpoonup> string"

datatype io_fault = No_Fault | Open_Fails | Write_Fails nat

definition report_name :: "(json \<Rightarrow> string) \<Rightarrow> pr_info \<Rightarrow> string" where
  "report_name str_of info = ''pr_'' @ str_of (pr_number info) @ ''_comments.txt''"

text \<open>The texts written into the report, one per call of \<open>f.write\<close>.\<close>

definition report_writes :: "(json \<Rightarrow> string) \<Rightarrow> string list \<Rightarrow> pr_info \<Rightarrow> string list" where
  "report_writes str_of comments info =
     [''PR #'' @ str_of (pr_number info) @ '': '' @ str_of (pr_title info) @ [newline],
      ''Repository: '' @ pr_repo info @ [newline],
      replicate 50 CHR ''='' @ [newline, newline]]
     @ (if comments \<noteq> [] then map (\<lambda>comment. comment @ [newline, newline]) comments
        else [''No comments found.'' @ [newline]])"

definition save_comments_to_file ::
  "(json \<Rightarrow> string) \<Rightarrow> files \<Rightarrow> io_fault \<Rightarrow> string list \<Rightarrow> pr_info \<Rightarrow> string option \<times> files" where
  "save_comments_to_file str_of fs fault comments info =
     (let filename = report_name str_of info;
          writes = report_writes str_of comments info
      in case fault of
           No_Fault \<Rightarrow> (Some filename, fs(filename \<mapsto> concat writes))
         | Open_Fails \<Rightarrow> (None, fs)
         | Write_Fails k \<Rightarrow> (None, fs(filename \<mapsto> concat (take k writes))))"

subsection \<open>\<open>main\<close> of extract-pr-comments.py\<close>

text \<open>The exit status, the files afterwards and the commands run.\<close>

definition main_extractor ::
  "(string \<Rightarrow> json option) \<Rightarrow> (json \<Rightarrow> string) \<Rightarrow> shell \<Rightarrow> files \<Rightarrow> io_fault
     \<Rightarrow> nat \<times> files \<times> string list" where
  "main_extractor json_loads str_of sh fs fault =
     (case run_gh_command sh [] ''gh --version'' of
        (Inl e, log0) \<Rightarrow> (1, fs, log0)
      | (Inr None, log0) \<Rightarrow> (1, fs, log0)
      | (Inr (Some version), log0) \<Rightarrow>
          if version = [] then (1, fs, log0)
          else
            (case get_open_pr json_loads sh log0 of
               (None, log1) \<Rightarrow> (1, fs, log1)
             | (Some info, log1) \<Rightarrow>
                 (case extract_pr_comments str_of sh log1 info of
                    (None, log2) \<Rightarrow> (1, fs, log2)
                  | (Some comments, log2) \<Rightarrow>
                      (case save_comments_to_file str_of fs fault comments info of
                         (None, fs') \<Rightarrow> (1, fs', log2)
                       | (Some filename, fs') \<Rightarrow>
                           if filename \<noteq> [] then (0, fs', log2) else (1, fs', log2)))))"

section \<open>Notions used to state the properties\<close>

text \<open>The distinct elements of a list, each at the place of its first occurrence.\<close>

fun first_seen :: "'a list \<Rightarrow> 'a list" where
  "first_seen [] = []"
| "first_seen (x # xs) = x # filter (\<lambda>y. y \<noteq> x) (first_seen xs)"

text \<open>The assignments \<open>self.secrets[key] = value\<close> that loading a file makes, in file order.\<close>

definition assignments :: "string list \<Rightarrow> (string \<times> string) list" where
  "assignments ls = List.map_filter line_entry ls"

text \<open>
  The flags returned by the calls of \<open>upload_secret\<close> that one run of the loop of
  \<open>sync_to_environment\<close> makes, in order.
\<close>

fun upload_results ::
  "cli \<Rightarrow> (string, string) dict \<Rightarrow> string \<Rightarrow> string list \<Rightarrow> invocation list \<Rightarrow> bool list" where
  "upload_results run secrets environment [] log = []"
| "upload_results run secrets environment (key # keys) log =
     (case dict_get secrets key of
        None \<Rightarrow> upload_results run secrets environment keys log
      | Some value \<Rightarrow>
          (case upload_secret run log key value environment of
             (b, log') \<Rightarrow> b # upload_results run secrets environment keys log'))"

text \<open>
  The invocations that syncing a list of keys to one environment makes: one for each key
  that is in \<open>self.secrets\<close>, in order, with the value on standard input.
\<close>

definition attempts :: "(string, string) dict \<Rightarrow> string \<Rightarrow> string list \<Rightarrow> invocation list" where
  "attempts secrets environment keys =
     List.map_filter
       (\<lambda>key. map_option (\<lambda>value. (upload_cmd key environment, value)) (dict_get secrets key))
       keys"

text \<open>
  The flags returned by the calls of \<open>upload_secret\<close> that one run of
  \<open>sync_all_environments\<close> makes, over all environments, in order.
\<close>

fun all_upload_results ::
  "cli \<Rightarrow> (string, string) dict \<Rightarrow> string list option \<Rightarrow> string list \<Rightarrow> invocation list \<Rightarrow> bool list" where
  "all_upload_results run secrets keys [] log = []"
| "all_upload_results run secrets keys (env # envs) log =
     upload_results run secrets env (keys_to_sync secrets keys) log
     @ all_upload_results run secrets keys envs
         (snd (sync_to_environment run log secrets env keys))"


section \<open>Properties of the secrets synchronizer\<close>

subsection \<open>Dictionaries\<close>

lemma dict_set_keys:
  "dict_keys (dict_set d k v) = (if k \<in> set (dict_keys d) then dict_keys d else dict_keys d @ [k])"
  by (induction d) (force simp: dict_keys_def)+

lemma dict_set_get: "dict_get (dict_set d k v) k' = (if k' = k then Some v else dict_get d k')"
  by (induction d) (auto simp: dict_get_def)

lemma dict_set_mem: "(a, b) \<in> set (dict_set d k v) \<Longrightarrow> (a, b) \<in> set d \<or> (a = k \<and> b = v)"
  by (induction d) (auto split: if_splits)

subsection \<open>Loading\<close>

lemma line_entry_nonempty: "line_entry raw = Some (k, v) \<Longrightarrow> k \<noteq> [] \<and> v \<noteq> []"
  by (auto simp: line_entry_def Let_def split: if_splits prod.splits)

lemma load_line_mem:
  "(a, b) \<in> set (load_line d raw) \<Longrightarrow> (a, b) \<in> set d \<or> (a \<noteq> [] \<and> b \<noteq> [])"
  by (auto simp: load_line_def split: option.splits dest: dict_set_mem line_entry_nonempty)

lemma load_lines_mem:
  "(a, b) \<in> set (load_lines d ls) \<Longrightarrow> (a, b) \<in> set d \<or> (a \<noteq> [] \<and> b \<noteq> [])"
  by (induction ls arbitrary: d) (auto dest: load_line_mem)

text \<open>
  C2.  The specification states that neither loader keeps an entry with an empty key or an empty value.
  The token tester's \<open>load_env_vars\<close> has no such check: it keeps the line \<open>K=\<close> as the
  key \<open>K\<close> with the empty value, and the line \<open>=v\<close> as the empty key.
\<close>

theorem load_env_vars_keeps_empty:
  "load_env_vars (Some [''K='', ''=v'']) = Some [(''K'', ''''), ('''', ''v'')]"
  by code_simp

text \<open>
  C2, as amended.  After \<open>SecretsManager.load_secrets\<close>, whatever the file, no entry of
  \<open>self.secrets\<close> has an empty key or an empty value, where key and value are the texts
  left after the loader's trimming of whitespace and quotes.
\<close>

theorem load_secrets_no_empty_entry:
  "load_secrets file = (ok, secrets) \<Longrightarrow> (k, v) \<in> set secrets \<Longrightarrow> k \<noteq> [] \<and> v \<noteq> []"
  by (auto simp: load_secrets_def Let_def split: option.splits dest: load_lines_mem)

theorem load_secrets_no_empty_entry_witness:
  "load_secrets (Some [''A=1'', ''B='', ''=x'', ''C=\"\"'']) = (True, [(''A'', ''1'')])
   \<and> (''A'', ''1'') \<in> set [(''A'', ''1'')] \<and> ''A'' \<noteq> [] \<and> ''1'' \<noteq> []"
proof -
  have h1: "load_secrets (Some [''A=1'', ''B='', ''=x'', ''C=\"\"'']) = (True, [(''A'', ''1'')])"
    by code_simp
  have h2: "(''A'', ''1'') \<in> set [(''A'', ''1'')]"
    by simp
  show ?thesis
    using h1 h2 load_secrets_no_empty_entry [OF h1 h2] by simp
qed

lemma load_lines_keys:
  "dict_keys (load_lines d ls) =
     dict_keys d @ filter (\<lambda>k. k \<notin> set (dict_keys d)) (first_seen (map fst (List.map_filter line_entry ls)))"
proof (induction ls arbitrary: d)
  case Nil
  then show ?case by simp
next
  case (Cons raw ls)
  show ?case
  proof (cases "line_entry raw")
    case None
    then show ?thesis using Cons.IH [of d] by (simp add: load_line_def)
  next
    case (Some e)
    obtain k v where e: "e = (k, v)" by (cases e)
    have filt: "\<And>P xs. filter P (filter (\<lambda>y. y \<noteq> k) xs) = filter (\<lambda>y. P y \<and> y \<noteq> k) xs"
      by (simp add: conj_commute)
    show ?thesis
      using Cons.IH [of "dict_set d k v"] Some e
      by (auto simp: load_line_def dict_set_keys filt intro!: filter_cong)
  qed
qed

lemma load_lines_get:
  "dict_get (load_lines d ls) k =
     (case map_of (rev (List.map_filter line_entry ls)) k of Some v \<Rightarrow> Some v | None \<Rightarrow> dict_get d k)"
proof (induction ls arbitrary: d)
  case Nil
  then show ?case by simp
next
  case (Cons raw ls)
  show ?case
  proof (cases "line_entry raw")
    case None
    then show ?thesis using Cons.IH [of d] by (simp add: load_line_def)
  next
    case (Some e)
    obtain k' v where e: "e = (k', v)" by (cases e)
    show ?thesis
      using Cons.IH [of "dict_set d k' v"] Some e
      by (auto simp: load_line_def dict_set_get map_add_def split: option.splits)
  qed
qed

subsection \<open>Listing\<close>

lemma list_rows_ok:
  "set keys \<subseteq> set (dict_keys secrets) \<Longrightarrow>
   \<exists>rows. list_rows secrets keys = Inr rows \<and> map fst rows = keys"
proof (induction keys)
  case Nil
  then show ?case by simp
next
  case (Cons key keys)
  then obtain rows where r: "list_rows secrets keys = Inr rows" "map fst rows = keys"
    by auto
  from Cons.prems have "key \<in> fst ` set secrets"
    by (simp add: dict_keys_def)
  then obtain v where "dict_get secrets key = Some v"
    by (metis dict_get_def domD dom_map_of_conv_image_fst)
  with r show ?case by simp
qed

text \<open>
  C3.  The specification states that, for a file with duplicate keys, listing mode shows
  the keys in the order of their first occurrence in the file.  \<open>list_secrets\<close> iterates
  over \<open>sorted(self.secrets.keys())\<close>: for the file \<open>B=1\<close>, \<open>A=2\<close>, \<open>B=3\<close>, in which
  the key \<open>B\<close> occurs twice, the order of first occurrence is \<open>B\<close>, \<open>A\<close>, the dictionary
  holds \<open>B\<close> before \<open>A\<close>, and the listing shows \<open>A\<close> before \<open>B\<close>.
\<close>

theorem list_secrets_sorted_not_insertion_order:
  "map fst (assignments [''B=1'', ''A=2'', ''B=3'']) = [''B'', ''A'', ''B'']
   \<and> first_seen (map fst (assignments [''B=1'', ''A=2'', ''B=3''])) = [''B'', ''A'']
   \<and> dict_keys (snd (load_secrets (Some [''B=1'', ''A=2'', ''B=3'']))) = [''B'', ''A'']
   \<and> list_secrets (snd (load_secrets (Some [''B=1'', ''A=2'', ''B=3''])))
       = Inr [(''A'', ''*''), (''B'', ''*'')]"
  by code_simp

text \<open>
  C3, as amended.  After loading, each key has the value of its last assignment in the
  file and the dictionary holds the keys in the order of their first assignment; listing
  mode shows the keys in ascending sorted order.
\<close>

theorem load_last_wins_list_sorted:
  assumes "load_secrets (Some ls) = (ok, secrets)"
  shows "dict_get secrets k = map_of (rev (assignments ls)) k
     \<and> dict_keys secrets = first_seen (map fst (assignments ls))
     \<and> (\<exists>rows. list_secrets secrets = Inr rows \<and> map fst rows = sort (dict_keys secrets)
           \<and> sorted (map fst rows))"
proof -
  from assms have s: "secrets = load_lines [] ls"
    by (auto simp: load_secrets_def Let_def)
  have "dict_get secrets k = map_of (rev (assignments ls)) k"
    using load_lines_get [of "[]" ls k]
    by (simp add: s assignments_def dict_get_def split: option.splits)
  moreover have "dict_keys secrets = first_seen (map fst (assignments ls))"
    using load_lines_keys [of "[]" ls] by (simp add: s assignments_def dict_keys_def)
  moreover have "\<exists>rows. list_secrets secrets = Inr rows \<and> map fst rows = sort (dict_keys secrets)
      \<and> sorted (map fst rows)"
    using list_rows_ok [of "sort (dict_keys secrets)" secrets] unfolding list_secrets_def by auto
  ultimately show ?thesis by blast
qed

theorem load_last_wins_list_sorted_witness:
  "load_secrets (Some [''B=1'', ''A=2'', ''B=3'']) = (True, [(''B'', ''3''), (''A'', ''2'')])
   \<and> dict_get [(''B'', ''3''), (''A'', ''2'')] ''B'' = Some ''3''
   \<and> dict_keys [(''B'', ''3''), (''A'', ''2'')] = [''B'', ''A'']
   \<and> (\<exists>rows. list_secrets [(''B'', ''3''), (''A'', ''2'')] = Inr rows \<and> map fst rows = [''A'', ''B''])"
proof -
  have h: "load_secrets (Some [''B=1'', ''A=2'', ''B=3'']) = (True, [(''B'', ''3''), (''A'', ''2'')])"
    by code_simp
  have a: "assignments [''B=1'', ''A=2'', ''B=3''] = [(''B'', ''1''), (''A'', ''2''), (''B'', ''3'')]"
    by code_simp
  have so: "sort [''B'', ''A''] = [''A'', ''B'']"
    by code_simp
  show ?thesis
    using h load_last_wins_list_sorted [OF h, of "''B''"] by (auto simp: a so dict_keys_def)
qed

lemma masked_short: "length v \<le> 20 \<Longrightarrow> masked v = replicate (length v) CHR ''*''"
  by (simp add: masked_def)

lemma masked_long_not_sublist: "length v > 23 \<Longrightarrow> \<not> sublist v (masked v)"
proof
  assume l: "length v > 23" and "sublist v (masked v)"
  then have "length v \<le> length (masked v)"
    by (auto simp: sublist_def)
  with l show False
    by (simp add: masked_def)
qed

text \<open>
  C4.  The specification states that the masked text of a value longer than 20 characters never contains
  the value.  The masked text is 23 characters long, so it cannot contain a value of more
  than 23 characters (\<open>masked_long_not_sublist\<close>), and a value of at most 20 characters
  is shown as asterisks (\<open>masked_short\<close>).  A value of 21 to 23 characters can be shown
  in full: the 23 characters \<open>aaaaaaaaaa...bbbbbbbbbb\<close>, loaded from the file and
  listed, are printed as they are.
\<close>

theorem list_secrets_shows_value_in_full:
  "length ''aaaaaaaaaa...bbbbbbbbbb'' > 20
   \<and> load_secrets (Some [''K=aaaaaaaaaa...bbbbbbbbbb'']) = (True, [(''K'', ''aaaaaaaaaa...bbbbbbbbbb'')])
   \<and> list_secrets [(''K'', ''aaaaaaaaaa...bbbbbbbbbb'')] = Inr [(''K'', ''aaaaaaaaaa...bbbbbbbbbb'')]
   \<and> sublist ''aaaaaaaaaa...bbbbbbbbbb'' (masked ''aaaaaaaaaa...bbbbbbbbbb'')"
  by code_simp

subsection \<open>Uploading\<close>

lemma upload_secret_iff:
  "fst (upload_secret run log key value environment) \<longleftrightarrow>
     (\<exists>out err. run log (upload_cmd key environment, value) = Completed 0 out err \<and> sublist ''Success'' out)"
  by (auto simp: upload_secret_def Let_def split: proc_result.splits)

lemma sync_keys_counts:
  "sync_keys run secrets environment keys (s, f, log) = (s', f', log') \<Longrightarrow>
     s' = s + length (filter id (upload_results run secrets environment keys log)) \<and>
     f' = f + length (filter Not (upload_results run secrets environment keys log)) \<and>
     length (upload_results run secrets environment keys log) =
       length (filter (\<lambda>k. dict_get secrets k \<noteq> None) keys)"
proof (induction keys arbitrary: s f log)
  case Nil
  then show ?case by simp
next
  case (Cons key keys)
  show ?case
  proof (cases "dict_get secrets key")
    case None
    with Cons show ?thesis by simp
  next
    case (Some v)
    obtain b l where u: "upload_secret run log key v environment = (b, l)"
      by (cases "upload_secret run log key v environment")
    show ?thesis
    proof (cases b)
      case True
      with Cons.prems Some u
      have "sync_keys run secrets environment keys (s + 1, f, l) = (s', f', log')"
        by simp
      from Cons.IH [OF this] Some u True show ?thesis by simp
    next
      case False
      with Cons.prems Some u
      have "sync_keys run secrets environment keys (s, f + 1, l) = (s', f', log')"
        by simp
      from Cons.IH [OF this] Some u False show ?thesis by simp
    qed
  qed
qed

lemma sync_keys_absent:
  "\<forall>k \<in> set keys. dict_get secrets k = None \<Longrightarrow> sync_keys run secrets environment keys st = st"
  by (induction keys) (cases st; simp)+

lemma sync_envs_absent:
  "ks \<noteq> [] \<Longrightarrow> \<forall>k \<in> set ks. dict_get secrets k = None \<Longrightarrow>
     sync_envs run secrets (Some ks) envs st = st"
proof (induction envs arbitrary: st)
  case Nil
  then show ?case by simp
next
  case (Cons e envs)
  obtain a b c where st: "st = (a, b, c)"
    by (cases st)
  from Cons show ?case
    by (simp add: st sync_to_environment_def keys_to_sync_def sync_keys_absent)
qed


lemma sync_keys_log:
  "sync_keys run secrets environment keys (s, f, log) = (s', f', log') \<Longrightarrow>
     log' = log @ attempts secrets environment keys"
proof (induction keys arbitrary: s f log)
  case Nil
  then show ?case by (simp add: attempts_def)
next
  case (Cons key keys)
  show ?case
  proof (cases "dict_get secrets key")
    case None
    with Cons show ?thesis by (simp add: attempts_def)
  next
    case (Some v)
    obtain b l where u: "upload_secret run log key v environment = (b, l)"
      by (cases "upload_secret run log key v environment")
    then have l: "l = log @ [(upload_cmd key environment, v)]"
      by (auto simp: upload_secret_def Let_def)
    from Cons.prems Some u
    have "sync_keys run secrets environment keys (if b then s + 1 else s, if b then f else f + 1, l)
        = (s', f', log')"
      by (cases b) simp_all
    from Cons.IH [OF this] Some l show ?thesis
      by (simp add: attempts_def)
  qed
qed

lemma sync_to_environment_counts:
  assumes "sync_to_environment run log secrets environment keys = ((s, f), log')"
  shows "s = length (filter id (upload_results run secrets environment (keys_to_sync secrets keys) log))
     \<and> f = length (filter Not (upload_results run secrets environment (keys_to_sync secrets keys) log))
     \<and> length (upload_results run secrets environment (keys_to_sync secrets keys) log) =
          length (filter (\<lambda>k. dict_get secrets k \<noteq> None) (keys_to_sync secrets keys))
     \<and> log' = log @ attempts secrets environment (keys_to_sync secrets keys)"
proof -
  from assms
  have k: "sync_keys run secrets environment (keys_to_sync secrets keys) (0, 0, log) = (s, f, log')"
    by (simp add: sync_to_environment_def split: prod.splits)
  from sync_keys_counts [OF k] sync_keys_log [OF k] show ?thesis
    by simp
qed

lemma sync_envs_counts:
  "sync_envs run secrets keys envs (ts, tf, log) = (ts', tf', log') \<Longrightarrow>
     ts' = ts + length (filter id (all_upload_results run secrets keys envs log))
     \<and> tf' = tf + length (filter Not (all_upload_results run secrets keys envs log))
     \<and> length (all_upload_results run secrets keys envs log) =
         length envs * length (filter (\<lambda>k. dict_get secrets k \<noteq> None) (keys_to_sync secrets keys))
     \<and> log' = log @ concat (map (\<lambda>env. attempts secrets env (keys_to_sync secrets keys)) envs)"
proof (induction envs arbitrary: ts tf log)
  case Nil
  then show ?case by simp
next
  case (Cons env envs)
  obtain s f l where e: "sync_to_environment run log secrets env keys = ((s, f), l)"
    by (cases "sync_to_environment run log secrets env keys") auto
  with Cons.prems
  have r: "sync_envs run secrets keys envs (ts + s, tf + f, l) = (ts', tf', log')"
    by simp
  from Cons.IH [OF r] sync_to_environment_counts [OF e] e show ?case
    by (simp add: id_def)
qed

text \<open>
  C6.  An upload attempt is a success exactly when the CLI completed with return code 0
  and its captured standard output contains \<open>Success\<close>; a timeout, any other exception,
  another return code or a missing marker make it a failure.  One run of
  \<open>sync_to_environment\<close> attempts every selected key that is in \<open>self.secrets\<close> once,
  whatever happened to the keys before it, and returns the number of successful attempts
  and the number of failed ones.  One run of \<open>sync_all_environments\<close> does so for every
  environment, whatever happened in the environments before it: it makes one attempt for
  each pair of an environment and a selected key that is in \<open>self.secrets\<close>, in order,
  its totals are the numbers of successful and of failed attempts over all pairs, and it
  returns \<open>True\<close> exactly when no attempt failed.
\<close>

theorem upload_success_iff_exit_zero_and_marker:
  "(fst (upload_secret run log key value environment) \<longleftrightarrow>
      (\<exists>out err. run log (upload_cmd key environment, value) = Completed 0 out err
         \<and> sublist ''Success'' out))
   \<and> (sync_to_environment run log secrets environment keys = ((s, f), log') \<longrightarrow>
        s = length (filter id (upload_results run secrets environment (keys_to_sync secrets keys) log))
      \<and> f = length (filter Not (upload_results run secrets environment (keys_to_sync secrets keys) log))
      \<and> length (upload_results run secrets environment (keys_to_sync secrets keys) log) =
          length (filter (\<lambda>k. dict_get secrets k \<noteq> None) (keys_to_sync secrets keys))
      \<and> log' = log @ attempts secrets environment (keys_to_sync secrets keys))
   \<and> (sync_all_environments run log secrets environments keys = (ok, ts, tf, log'') \<longrightarrow>
        ts = length (filter id (all_upload_results run secrets keys environments log))
      \<and> tf = length (filter Not (all_upload_results run secrets keys environments log))
      \<and> length (all_upload_results run secrets keys environments log) =
          length environments
            * length (filter (\<lambda>k. dict_get secrets k \<noteq> None) (keys_to_sync secrets keys))
      \<and> log'' = log @ concat (map (\<lambda>env. attempts secrets env (keys_to_sync secrets keys)) environments)
      \<and> (ok \<longleftrightarrow> tf = 0))"
proof -
  have all: "ts = length (filter id (all_upload_results run secrets keys environments log))
      \<and> tf = length (filter Not (all_upload_results run secrets keys environments log))
      \<and> length (all_upload_results run secrets keys environments log) =
          length environments
            * length (filter (\<lambda>k. dict_get secrets k \<noteq> None) (keys_to_sync secrets keys))
      \<and> log'' = log @ concat (map (\<lambda>env. attempts secrets env (keys_to_sync secrets keys)) environments)
      \<and> (ok \<longleftrightarrow> tf = 0)"
    if a: "sync_all_environments run log secrets environments keys = (ok, ts, tf, log'')"
  proof -
    from a have e: "sync_envs run secrets keys environments (0, 0, log) = (ts, tf, log'')"
      and ok: "ok \<longleftrightarrow> tf = 0"
      by (auto simp: sync_all_environments_def split: prod.splits)
    from sync_envs_counts [OF e] ok show ?thesis
      by simp
  qed
  from all sync_to_environment_counts [of run log secrets environment keys s f log']
    upload_secret_iff [of run log key "value" environment]
  show ?thesis
    by blast
qed

theorem upload_success_iff_exit_zero_and_marker_witness:
  "sync_to_environment
      (\<lambda>log inv. if length log = 0 then Completed 0 ''ok Success'' ''''
         else if length log = 1 then TimeoutExpired else Completed 1 ''Success'' ''boom'')
      [] [(''A'', ''1''), (''B'', ''2''), (''C'', ''3'')] ''production'' (Some [''A'', ''Z'', ''B'', ''C''])
    = ((1, 2),
       [([''npx'', ''wrangler'', ''secret'', ''put'', ''A'', ''--env=production''], ''1''),
        ([''npx'', ''wrangler'', ''secret'', ''put'', ''B'', ''--env=production''], ''2''),
        ([''npx'', ''wrangler'', ''secret'', ''put'', ''C'', ''--env=production''], ''3'')])
   \<and> upload_results
      (\<lambda>log inv. if length log = 0 then Completed 0 ''ok Success'' ''''
         else if length log = 1 then TimeoutExpired else Completed 1 ''Success'' ''boom'')
      [(''A'', ''1''), (''B'', ''2''), (''C'', ''3'')] ''production'' [''A'', ''Z'', ''B'', ''C''] []
    = [True, False, False]
   \<and> sync_all_environments
      (\<lambda>log inv. if length log = 0 then TimeoutExpired else Completed 0 ''ok Success'' '''')
      [] [(''A'', ''1'')] [''default'', ''production''] None
    = (False, 1, 1,
       [([''npx'', ''wrangler'', ''secret'', ''put'', ''A''], ''1''),
        ([''npx'', ''wrangler'', ''secret'', ''put'', ''A'', ''--env=production''], ''1'')])
   \<and> all_upload_results
      (\<lambda>log inv. if length log = 0 then TimeoutExpired else Completed 0 ''ok Success'' '''')
      [(''A'', ''1'')] None [''default'', ''production''] []
    = [False, True]"
proof -
  let ?run = "\<lambda>(log :: invocation list) (inv :: invocation).
     if length log = 0 then Completed 0 ''ok Success'' ''''
     else if length log = 1 then TimeoutExpired else Completed 1 ''Success'' ''boom''"
  let ?log = "[([''npx'', ''wrangler'', ''secret'', ''put'', ''A'', ''--env=production''], ''1''),
        ([''npx'', ''wrangler'', ''secret'', ''put'', ''B'', ''--env=production''], ''2''),
        ([''npx'', ''wrangler'', ''secret'', ''put'', ''C'', ''--env=production''], ''3'')]"
  let ?run2 = "\<lambda>(log :: invocation list) (inv :: invocation).
     if length log = 0 then TimeoutExpired else Completed 0 ''ok Success'' ''''"
  let ?log2 = "[([''npx'', ''wrangler'', ''secret'', ''put'', ''A''], ''1''),
        ([''npx'', ''wrangler'', ''secret'', ''put'', ''A'', ''--env=production''], ''1'')]"
  have h: "sync_to_environment ?run [] [(''A'', ''1''), (''B'', ''2''), (''C'', ''3'')] ''production''
      (Some [''A'', ''Z'', ''B'', ''C'']) = ((1, 2), ?log)"
    by code_simp
  have r: "upload_results ?run [(''A'', ''1''), (''B'', ''2''), (''C'', ''3'')] ''production''
      [''A'', ''Z'', ''B'', ''C''] [] = [True, False, False]"
    by code_simp
  have h2: "sync_all_environments ?run2 [] [(''A'', ''1'')] [''default'', ''production''] None
      = (False, 1, 1, ?log2)"
    by code_simp
  have r2: "all_upload_results ?run2 [(''A'', ''1'')] None [''default'', ''production''] [] = [False, True]"
    by code_simp
  show ?thesis
    using h r h2 r2
      upload_success_iff_exit_zero_and_marker
        [where run = ?run and log = "[]" and key = "''A''"
           and environment = "''production''"
           and secrets = "[(''A'', ''1''), (''B'', ''2''), (''C'', ''3'')]"
           and keys = "Some [''A'', ''Z'', ''B'', ''C'']" and s = 1 and f = 2 and ?log' = ?log]
      upload_success_iff_exit_zero_and_marker
        [where run = ?run2 and log = "[]" and secrets = "[(''A'', ''1'')]"
           and environments = "[''default'', ''production'']" and keys = None
           and ok = False and ts = 1 and tf = 1 and ?log'' = ?log2]
    by simp
qed

text \<open>
  C10.  A selected key that is not in \<open>self.secrets\<close> is skipped: the loop goes on with the
  counters and the invocations as they were.  When \<open>--keys\<close> names only such keys, a run of
  \<open>sync_to_environment\<close> returns 0 successes and 0 failures and invokes nothing, the
  grand totals are 0 and 0, \<open>sync_all_environments\<close> returns \<open>True\<close>, and the process exits
  with status 0 without a single CLI invocation.
\<close>

theorem absent_keys_skipped_exit_zero:
  assumes "ks \<noteq> []" and "\<forall>k \<in> set ks. dict_get secrets k = None"
  shows "(dict_get secrets key = None \<longrightarrow>
            sync_keys run secrets environment (key # keys) (s, f, log) =
            sync_keys run secrets environment keys (s, f, log))
     \<and> sync_to_environment run log secrets environment (Some ks) = ((0, 0), log)
     \<and> sync_all_environments run log secrets environments (Some ks) = (True, 0, 0, log)
     \<and> (load_secrets file = (True, secrets) \<and> \<not> arg_list a \<and> arg_keys a = Some ks
          \<and> (arg_all a \<or> (\<exists>e es. arg_env a = Some (e # es)))
        \<longrightarrow> main_secrets run file a = (0, []))"
proof -
  have one: "sync_to_environment run log secrets environment (Some ks) = ((0, 0), log)" for log environment
    using assms by (simp add: sync_to_environment_def keys_to_sync_def sync_keys_absent)
  have all: "sync_all_environments run log secrets environments (Some ks) = (True, 0, 0, log)" for log environments
    using assms by (simp add: sync_all_environments_def sync_envs_absent)
  have "main_secrets run file a = (0, [])"
    if "load_secrets file = (True, secrets)" "\<not> arg_list a" "arg_keys a = Some ks"
       "arg_all a \<or> (\<exists>e es. arg_env a = Some (e # es))"
    using that all by (auto simp: main_secrets_def)
  with one all show ?thesis by simp
qed

theorem absent_keys_skipped_exit_zero_witness:
  "[''Z''] \<noteq> [] \<and> dict_get [(''A'', ''1'')] ''Z'' = None
   \<and> load_secrets (Some [''A=1'']) = (True, [(''A'', ''1'')])
   \<and> main_secrets (\<lambda>log inv. Completed 1 [] []) (Some [''A=1''])
        \<lparr>arg_list = False, arg_env = None, arg_all = True, arg_keys = Some [''Z'']\<rparr> = (0, [])"
proof -
  have h1: "[''Z''] \<noteq> []"
    by simp
  have h2: "\<forall>k \<in> set [''Z'']. dict_get [(''A'', ''1'')] k = None"
    by (simp add: dict_get_def)
  have h3: "load_secrets (Some [''A=1'']) = (True, [(''A'', ''1'')])"
    by code_simp
  show ?thesis
    using h1 h2 h3 absent_keys_skipped_exit_zero [OF h1 h2, of "''Z''" "\<lambda>log inv. Completed 1 [] []" "[]" "[]" 0 0 "[]" "[]" "Some [''A=1'']"
        "\<lparr>arg_list = False, arg_env = None, arg_all = True, arg_keys = Some [''Z'']\<rparr>"]
    by simp
qed

section \<open>Properties of the token tester\<close>

subsection \<open>The requests of a battery\<close>





lemma print_test_token: "token (print_test t name s m) = token t"
  by (simp add: print_test_def split: option.splits)

lemma list_probe_token:
  "fst (list_probe e name field n oe bk log t) = Inr (s, t') \<Longrightarrow> token t' = token t"
  by (auto simp: list_probe_def case_prod_beta and_then_def print_test_token split: sum.splits if_splits)

lemma test_token_verification_token:
  "fst (test_token_verification bk log t) = Inr (s, t') \<Longrightarrow> token t' = token t"
  by (auto simp: test_token_verification_def Let_def case_prod_beta and_then_def print_test_token split: sum.splits if_splits)








subsection \<open>The exit status of the token tester\<close>











subsection \<open>A backend that does not change\<close>

lemma fixed_backend: "\<forall>l l' r. bk l r = bk l' r \<Longrightarrow> bk = (\<lambda>l. bk [])"
  by (intro ext) blast

lemma make_request_fixed:
  "fst (make_request (\<lambda>l. f) log t m e) = fst (make_request (\<lambda>l. f) log' t m e)"
  by (simp add: make_request_def Let_def)

lemma list_probe_fixed:
  "fst (list_probe e name field n oe (\<lambda>l. f) log t) = fst (list_probe e name field n oe (\<lambda>l. f) log' t)"
  using make_request_fixed [of f log t "''GET''" e log']
  by (simp add: list_probe_def case_prod_beta)

lemma test_token_verification_fixed:
  "fst (test_token_verification (\<lambda>l. f) log t) = fst (test_token_verification (\<lambda>l. f) log' t)"
  by (simp add: test_token_verification_def Let_def case_prod_beta
      make_request_fixed [of f log t "''GET''" _ log'])

lemma battery_fixed:
  "p \<in> set battery \<Longrightarrow> fst (p (\<lambda>l. f) log t) = fst (p (\<lambda>l. f) log' t)"
  by (auto simp: battery_def test_account_access_def test_workers_list_def
      test_d1_databases_def test_kv_namespaces_def test_ai_models_def
      test_api_tokens_list_def
      intro: list_probe_fixed test_token_verification_fixed)

lemma run_probes_fixed:
  assumes "\<And>p log log' t. p \<in> set ps \<Longrightarrow> fst (p bk log t) = fst (p bk log' t)"
  shows "fst (run_probes ps bk log t) = fst (run_probes ps bk log' t)"
  using assms
proof (induction ps arbitrary: log log' t)
  case Nil
  then show ?case by simp
next
  case (Cons p ps)
  obtain r l where a: "p bk log t = (r, l)"
    by (cases "p bk log t")
  obtain r' l' where b: "p bk log' t = (r', l')"
    by (cases "p bk log' t")
  from Cons.prems [of p log t log'] a b have same: "r' = r"
    by simp
  show ?case
  proof (cases r)
    case (Inl e)
    with a b same show ?thesis by simp
  next
    case (Inr st)
    obtain s t' where st: "st = (s, t')"
      by (cases st)
    have "fst (run_probes ps bk l t') = fst (run_probes ps bk l' t')"
      using Cons.IH [of l t' l'] Cons.prems by simp
    with Inr st a b same show ?thesis by simp
  qed
qed

text \<open>
  C9.  When the answer of the backend to a request does not depend on the requests sent
  before it, the outcome of the battery (the exception that escaped it, or the counts and
  the recorded results of the seven probes) is the same whatever was sent before; so a
  second run of the battery for the same credential, right after the first, gives the
  same pass and fail classifications.
\<close>

theorem battery_deterministic:
  assumes "\<forall>l l' r. bk l r = bk l' r"
  shows "fst (run_all_tests bk log' t) = fst (run_all_tests bk log t)
     \<and> fst (run_all_tests bk (snd (run_all_tests bk log t)) t) = fst (run_all_tests bk log t)"
proof -
  from assms have bk: "bk = (\<lambda>l. bk [])"
    by (rule fixed_backend)
  have p: "fst (run_probes battery (\<lambda>l. bk []) l1 t) = fst (run_probes battery (\<lambda>l. bk []) l2 t)" for l1 l2
    by (rule run_probes_fixed) (rule battery_fixed)
  have "fst (run_all_tests (\<lambda>l. bk []) l1 t) = fst (run_all_tests (\<lambda>l. bk []) l2 t)" for l1 l2
    using p [of l1 l2] by (simp add: run_all_tests_def case_prod_beta)
  with bk show ?thesis
    by metis
qed


theorem battery_deterministic_witness:
  "fst (run_all_tests (\<lambda>log req. if fst (snd req) = ''https://api.cloudflare.com/client/v4/accounts''
          then Timeout else Response 200 (Some (JObj [(''success'', JBool True)])))
        (snd (run_all_tests (\<lambda>log req. if fst (snd req) = ''https://api.cloudflare.com/client/v4/accounts''
          then Timeout else Response 200 (Some (JObj [(''success'', JBool True)]))) []
            (new_tester ''tok'' ''acc'' ''user'' None)))
        (new_tester ''tok'' ''acc'' ''user'' None))
   = Inr ((6, 1), \<lparr>token = ''tok'', account_id = ''acc'', token_type = ''user'', verify_url = None,
       results = [(''User Token Verification'', True, Msg_Token (JStr ''N/A'') (JStr ''N/A'') (JStr ''Never'')),
         (''List Accounts'', False, Msg_Timeout),
         (''List Workers Scripts'', True, Msg_None_Found),
         (''List D1 Databases'', True, Msg_None_Found),
         (''List KV Namespaces'', True, Msg_None_Found),
         (''List AI Models'', True, Msg_None_Found),
         (''List API Tokens'', True, Msg_None_Found)]\<rparr>)"
proof -
  let ?bk = "\<lambda>(log :: request list) (req :: request).
     if fst (snd req) = ''https://api.cloudflare.com/client/v4/accounts''
     then Timeout else Response 200 (Some (JObj [(''success'', JBool True)]))"
  let ?t = "new_tester ''tok'' ''acc'' ''user'' None"
  have h: "\<forall>l l' r. ?bk l r = ?bk l' r"
    by simp
  have first: "fst (run_all_tests ?bk [] ?t) = Inr ((6, 1), \<lparr>token = ''tok'', account_id = ''acc'', token_type = ''user'', verify_url = None,
       results = [(''User Token Verification'', True, Msg_Token (JStr ''N/A'') (JStr ''N/A'') (JStr ''Never'')),
         (''List Accounts'', False, Msg_Timeout),
         (''List Workers Scripts'', True, Msg_None_Found),
         (''List D1 Databases'', True, Msg_None_Found),
         (''List KV Namespaces'', True, Msg_None_Found),
         (''List AI Models'', True, Msg_None_Found),
         (''List API Tokens'', True, Msg_None_Found)]\<rparr>)"
    by code_simp
  show ?thesis
    using battery_deterministic [OF h, of "[]" ?t "[]"] first by simp
qed


subsection \<open>The classification of a response\<close>

lemma make_request_success:
  assumes "bk log (m, base_url @ e, token t) = Response 200 (Some data)"
    and "py_get data ''success'' JNull = Inr s" and "truthy s"
  shows "fst (make_request bk log t m e) = Inr (True, Msg_Success, data)"
  using assms by (simp add: make_request_def Let_def and_then_def)

lemma make_request_no_answer:
  assumes "bk log (m, base_url @ e, token t) = Timeout
      \<or> bk log (m, base_url @ e, token t) = RequestException
      \<or> bk log (m, base_url @ e, token t) = Response st None"
  shows "\<exists>msg. fst (make_request bk log t m e) = Inr (False, msg, JObj [])"
  using assms by (auto simp: make_request_def Let_def)

lemma list_probe_empty:
  assumes "bk log (''GET'', base_url @ e, token t) = Response 200 (Some data)"
    and "py_get data ''success'' JNull = Inr s" and "truthy s"
    and "py_get data ''result'' (JArr []) = Inr (JArr [])"
  shows "fst (list_probe e name field n (b, msg) bk log t) =
     Inr (True, t\<lparr>results := results t @ [(name, b, msg)]\<rparr>)"
  using make_request_success [of bk log "''GET''" e t data s] assms
  by (simp add: list_probe_def case_prod_beta and_then_def print_test_def)

text \<open>
  C1.  The specification states that every probe records a pass for a 200 response with a true success
  flag and an empty result list, the account listing in particular.
  \<open>test_account_access\<close> records such a response as a failure, with the message that no
  accounts are accessible.
\<close>

theorem account_probe_fails_on_empty_list:
  "fst (test_account_access
          (\<lambda>log req. Response 200 (Some (JObj [(''success'', JBool True), (''result'', JArr [])])))
          [] (new_tester ''tok'' ''acc'' ''account'' None))
   = Inr (True, \<lparr>token = ''tok'', account_id = ''acc'', token_type = ''account'', verify_url = None,
            results = [(''List Accounts'', False, Msg_No_Accounts)]\<rparr>)"
  by code_simp

text \<open>
  C1, as amended.  For a 200 response whose envelope has a true success flag: with an
  empty result list, the probes 3 to 7 record a pass and probe 2 records a failure; with
  a result that is an object, probe 1 records a pass.
\<close>

theorem empty_result_passes_except_accounts:
  assumes "\<forall>req. bk log req = Response 200 (Some data)"
    and "py_get data ''success'' JNull = Inr s" and "truthy s"
  shows "(py_get data ''result'' (JArr []) = Inr (JArr []) \<longrightarrow>
        fst (test_account_access bk log t) =
          Inr (True, t\<lparr>results := results t @ [(''List Accounts'', False, Msg_No_Accounts)]\<rparr>)
      \<and> fst (test_workers_list bk log t) =
          Inr (True, t\<lparr>results := results t @ [(''List Workers Scripts'', True, Msg_None_Found)]\<rparr>)
      \<and> fst (test_d1_databases bk log t) =
          Inr (True, t\<lparr>results := results t @ [(''List D1 Databases'', True, Msg_None_Found)]\<rparr>)
      \<and> fst (test_kv_namespaces bk log t) =
          Inr (True, t\<lparr>results := results t @ [(''List KV Namespaces'', True, Msg_None_Found)]\<rparr>)
      \<and> fst (test_ai_models bk log t) =
          Inr (True, t\<lparr>results := results t @ [(''List AI Models'', True, Msg_None_Found)]\<rparr>)
      \<and> fst (test_api_tokens_list bk log t) =
          Inr (True, t\<lparr>results := results t @ [(''List API Tokens'', True, Msg_None_Found)]\<rparr>))
   \<and> (py_get data ''result'' (JObj []) = Inr (JObj kvs) \<longrightarrow>
        (\<exists>msg. fst (test_token_verification bk log t) =
          Inr (True, t\<lparr>results := results t @
             [(capitalize (token_type t) @ '' Token Verification'', True, msg)]\<rparr>)))"
proof -
  have req: "bk log (''GET'', base_url @ e, token t) = Response 200 (Some data)" for e
    using assms(1) by simp
  have lp: "fst (list_probe e name field n (b, msg) bk log t) =
     Inr (True, t\<lparr>results := results t @ [(name, b, msg)]\<rparr>)"
    if "py_get data ''result'' (JArr []) = Inr (JArr [])" for e name field n b msg
    using list_probe_empty [of bk log e t data s name field n b msg] req assms(2,3) that by simp
  have tv: "\<exists>msg. fst (test_token_verification bk log t) =
          Inr (True, t\<lparr>results := results t @
             [(capitalize (token_type t) @ '' Token Verification'', True, msg)]\<rparr>)"
    if "py_get data ''result'' (JObj []) = Inr (JObj kvs)"
    using that req assms(2,3) make_request_success [of bk log "''GET''" _ t data s]
    by (auto simp: test_token_verification_def Let_def case_prod_beta and_then_def print_test_def)
  from lp tv show ?thesis
    by (simp add: test_account_access_def test_workers_list_def test_d1_databases_def
        test_kv_namespaces_def test_ai_models_def test_api_tokens_list_def)
qed

theorem empty_result_passes_except_accounts_witness:
  "fst (test_workers_list
          (\<lambda>log req. Response 200 (Some (JObj [(''success'', JBool True), (''result'', JArr [])])))
          [] (new_tester ''tok'' ''acc'' ''account'' None))
   = Inr (True, \<lparr>token = ''tok'', account_id = ''acc'', token_type = ''account'', verify_url = None,
            results = [(''List Workers Scripts'', True, Msg_None_Found)]\<rparr>)
   \<and> fst (test_api_tokens_list
          (\<lambda>log req. Response 200 (Some (JObj [(''success'', JBool True), (''result'', JArr [])])))
          [] (new_tester ''tok'' ''acc'' ''account'' None))
   = Inr (True, \<lparr>token = ''tok'', account_id = ''acc'', token_type = ''account'', verify_url = None,
            results = [(''List API Tokens'', True, Msg_None_Found)]\<rparr>)"
proof -
  let ?data = "JObj [(''success'', JBool True), (''result'', JArr [])]"
  let ?bk = "\<lambda>(log :: request list) (req :: request). Response 200 (Some ?data)"
  have h1: "\<forall>req. ?bk [] req = Response 200 (Some ?data)"
    by simp
  have h2: "py_get ?data ''success'' JNull = Inr (JBool True)"
    by simp
  have h3: "truthy (JBool True)"
    by simp
  have h4: "py_get ?data ''result'' (JArr []) = Inr (JArr [])"
    by simp
  show ?thesis
    using empty_result_passes_except_accounts
      [of ?bk "[]" ?data "JBool True" "new_tester ''tok'' ''acc'' ''account'' None" "[]"] h1 h2 h3 h4
    by (simp add: new_tester_def)
qed

lemma make_request_object_error:
  assumes "bk log (m, base_url @ e, token t) = Response st (Some (JObj kvs))"
    and "st \<noteq> 200 \<or> (\<forall>v. map_of kvs ''success'' = Some v \<longrightarrow> \<not> truthy v)"
    and "map_of kvs ''errors'' = None \<or> map_of kvs ''errors'' = Some (JArr [])
       \<or> (\<exists>x xs. map_of kvs ''errors'' = Some (JArr (JObj x # xs)))"
  shows "\<exists>msg. fst (make_request bk log t m e) = Inr (False, msg, JObj kvs)"
  using assms
  by (auto simp: make_request_def Let_def and_then_def request_error_def split: option.splits)

lemma list_probe_failure:
  assumes "fst (make_request bk log t ''GET'' e) = Inr (False, msg, data)"
  shows "fst (list_probe e name field n oe bk log t) =
     Inr (False, t\<lparr>results := results t @ [(name, False, msg)]\<rparr>)"
  using assms by (simp add: list_probe_def case_prod_beta and_then_def print_test_def)

lemma test_token_verification_failure:
  assumes "\<And>e. \<exists>msg data. fst (make_request bk log t ''GET'' e) = Inr (False, msg, data)"
  shows "\<exists>msg. fst (test_token_verification bk log t) =
     Inr (False, t\<lparr>results := results t @
       [(capitalize (token_type t) @ '' Token Verification'', False, msg)]\<rparr>)"
proof -
  let ?p = "case verify_url t of None \<Rightarrow> ''/user/tokens/verify''
     | Some u \<Rightarrow> if u \<noteq> [] then replace base_url [] u else ''/user/tokens/verify''"
  from assms [of ?p] obtain msg data where
    "fst (make_request bk log t ''GET'' ?p) = Inr (False, msg, data)"
    by blast
  then show ?thesis
    by (auto simp: test_token_verification_def Let_def case_prod_beta and_then_def print_test_def)
qed

lemma battery_failure:
  assumes "\<And>log t e. \<exists>msg data. fst (make_request bk log t ''GET'' e) = Inr (False, msg, data)"
    and "p \<in> set battery"
  shows "\<exists>name msg. fst (p bk log t) = Inr (False, t\<lparr>results := results t @ [(name, False, msg)]\<rparr>)"
proof -
  have lp: "\<exists>name' msg. fst (list_probe e name field n oe bk log t) =
      Inr (False, t\<lparr>results := results t @ [(name', False, msg)]\<rparr>)" for e name field n oe
  proof -
    from assms(1) [of log t e] obtain msg data where
      "fst (make_request bk log t ''GET'' e) = Inr (False, msg, data)"
      by blast
    from list_probe_failure [OF this] show ?thesis
      by blast
  qed
  have tv: "\<exists>name msg. fst (test_token_verification bk log t) =
      Inr (False, t\<lparr>results := results t @ [(name, False, msg)]\<rparr>)"
    using test_token_verification_failure [of bk log t] assms(1) by blast
  from assms(2) lp tv show ?thesis
    by (auto simp: battery_def test_account_access_def test_workers_list_def
        test_d1_databases_def test_kv_namespaces_def test_ai_models_def test_api_tokens_list_def)
qed

lemma run_probes_failures:
  assumes "\<And>p log t. p \<in> set ps \<Longrightarrow>
     \<exists>name msg. fst (p bk log t) = Inr (False, t\<lparr>results := results t @ [(name, False, msg)]\<rparr>)"
  shows "\<exists>rs. fst (run_probes ps bk log t) = Inr (t\<lparr>results := results t @ rs\<rparr>)
     \<and> length rs = length ps \<and> filter (\<lambda>(name, success, msg). success) rs = []"
  using assms
proof (induction ps arbitrary: log t)
  case Nil
  then show ?case by simp
next
  case (Cons p ps)
  from Cons.prems [of p log t] obtain name msg where
    p: "fst (p bk log t) = Inr (False, t\<lparr>results := results t @ [(name, False, msg)]\<rparr>)"
    by auto
  let ?t = "t\<lparr>results := results t @ [(name, False, msg)]\<rparr>"
  obtain l where pl: "p bk log t = (Inr (False, ?t), l)"
    using p by (cases "p bk log t") simp
  from Cons.IH [of l ?t] Cons.prems obtain rs where
    rs: "fst (run_probes ps bk l ?t) = Inr (?t\<lparr>results := results ?t @ rs\<rparr>)"
      "length rs = length ps" "filter (\<lambda>(name, success, msg). success) rs = []"
    by auto
  have "fst (run_probes (p # ps) bk log t) = Inr (t\<lparr>results := results t @ ((name, False, msg) # rs)\<rparr>)"
    using pl rs(1) by simp
  with rs(2,3) show ?case
    by (intro exI [of _ "(name, False, msg) # rs"]) simp
qed

text \<open>
  As long as every request is answered in a way that \<open>make_request\<close>
  turns into a failure (a timeout, a transport error, a body that is not JSON, an object
  with a well-formed list of errors), the battery of a fresh tester makes its seven
  probes and returns no pass and seven failures.
\<close>

lemma run_all_tests_all_failures:
  assumes "\<And>log t e. \<exists>msg data. fst (make_request bk log t ''GET'' e) = Inr (False, msg, data)"
  shows "\<exists>t'. fst (run_all_tests bk log (new_tester tok acc ty vurl)) = Inr ((0, 7), t')
     \<and> length (results t') = 7"
proof -
  let ?t = "new_tester tok acc ty vurl"
  have "\<exists>rs. fst (run_probes battery bk log ?t) = Inr (?t\<lparr>results := results ?t @ rs\<rparr>)
     \<and> length rs = length battery \<and> filter (\<lambda>(name, success, msg). success) rs = []"
    by (rule run_probes_failures) (rule battery_failure [OF assms])
  then obtain rs where rs: "fst (run_probes battery bk log ?t) = Inr (?t\<lparr>results := rs\<rparr>)"
    "length rs = 7" "filter (\<lambda>(name, success, msg). success) rs = []"
    by (auto simp: new_tester_def battery_def)
  from rs(2) have "rs \<noteq> []"
    by auto
  with rs show ?thesis
    by (simp add: run_all_tests_def case_prod_beta and_then_def print_summary_def Let_def)
qed

text \<open>
  C7.  The specification states that a response with a status other than 200 is recorded as a failure
  of its probe and that the seven probes run whatever the earlier ones met.  A body that
  is JSON but not an object makes \<open>data.get\<close> raise \<open>AttributeError\<close>, which
  \<open>make_request\<close> does not catch: with the answer 500 and the body \<open>[]\<close> the exception
  leaves \<open>run_all_tests\<close> after the first request, and nothing is recorded.
\<close>

theorem battery_raises_on_non_object_body:
  "run_all_tests (\<lambda>log req. Response 500 (Some (JArr []))) []
      (new_tester ''tok'' ''acc'' ''account'' None)
   = (Inl AttributeError, [(''GET'', ''https://api.cloudflare.com/client/v4/user/tokens/verify'', ''tok'')])"
  by code_simp

section \<open>Properties of the comment extractor\<close>

lemma run_gh_command_log: "snd (run_gh_command sh log c) = log @ [c]"
  by (simp add: run_gh_command_def)

lemma extract_pr_comments_Some:
  "extract_pr_comments so sh log info = (Some comments, log') \<Longrightarrow>
     (\<exists>out err. sh log (comments_cmd so info) = Exited 0 out err) \<and> log' = log @ [comments_cmd so info]"
  by (auto simp: extract_pr_comments_def run_gh_command_def split: run_result.splits if_splits)

lemma extract_pr_comments_None:
  "\<forall>out err. sh log (comments_cmd so info) \<noteq> Exited 0 out err \<Longrightarrow>
     extract_pr_comments so sh log info = (None, log @ [comments_cmd so info])"
  by (auto simp: extract_pr_comments_def run_gh_command_def split: run_result.splits if_splits)

lemma main_extractor_changes_files:
  assumes "main_extractor jl so sh fs fault = (status, fs', log)" and "fs' \<noteq> fs \<or> status = 0"
  shows "\<exists>info log1 comments. get_open_pr jl sh [''gh --version''] = (Some info, log1)
       \<and> extract_pr_comments so sh log1 info = (Some comments, log)"
  using assms
  by (auto simp: main_extractor_def run_gh_command_def save_comments_to_file_def Let_def
      split: run_result.splits if_splits prod.splits option.splits sum.splits io_fault.splits)

text \<open>
  C8.  When \<open>gh\<close> is there and the open pull request was found, and the command of the
  comment fetch does not exit with 0 (it fails, or \<open>subprocess.run\<close> raises), the process
  exits with status 1 and the files are as they were: no report exists.  Whenever a run
  changes the files or exits with 0, the comment fetch was run last and exited with 0:
  the report is only written after the whole list of comments was retrieved.
\<close>

theorem no_report_when_fetch_fails:
  "(sh [] ''gh --version'' = Exited 0 vout verr \<and> strip vout \<noteq> []
      \<and> get_open_pr jl sh [''gh --version''] = (Some info, log1)
      \<and> (\<forall>out err. sh log1 (comments_cmd so info) \<noteq> Exited 0 out err)
     \<longrightarrow> main_extractor jl so sh fs fault = (1, fs, log1 @ [comments_cmd so info]))
   \<and> (main_extractor jl so sh fs fault = (status, fs', log) \<and> (fs' \<noteq> fs \<or> status = 0)
     \<longrightarrow> (\<exists>pr log2 out err. get_open_pr jl sh [''gh --version''] = (Some pr, log2)
           \<and> sh log2 (comments_cmd so pr) = Exited 0 out err
           \<and> log = log2 @ [comments_cmd so pr]))"
proof -
  have a: "main_extractor jl so sh fs fault = (1, fs, log1 @ [comments_cmd so info])"
    if "sh [] ''gh --version'' = Exited 0 vout verr" "strip vout \<noteq> []"
      "get_open_pr jl sh [''gh --version''] = (Some info, log1)"
      "\<forall>out err. sh log1 (comments_cmd so info) \<noteq> Exited 0 out err"
    using that extract_pr_comments_None [of sh log1 so info]
    by (simp add: main_extractor_def run_gh_command_def)
  have b: "\<exists>pr log2 out err. get_open_pr jl sh [''gh --version''] = (Some pr, log2)
           \<and> sh log2 (comments_cmd so pr) = Exited 0 out err
           \<and> log = log2 @ [comments_cmd so pr]"
    if "main_extractor jl so sh fs fault = (status, fs', log)" "fs' \<noteq> fs \<or> status = 0"
  proof -
    from main_extractor_changes_files [OF that]
    obtain pr log2 comments where g: "get_open_pr jl sh [''gh --version''] = (Some pr, log2)"
      and e: "extract_pr_comments so sh log2 pr = (Some comments, log)"
      by blast
    from extract_pr_comments_Some [OF e] g show ?thesis
      by blast
  qed
  from a b show ?thesis
    by blast
qed

theorem no_report_when_fetch_fails_witness:
  "get_open_pr (\<lambda>s. Some (JArr [JObj [(''number'', JNum 7), (''title'', JStr ''T'')]]))
      (\<lambda>log cmd. if length log = 0 then Exited 0 ''gh version 2'' []
         else if length log = 1 then Exited 0 ''https://github.com/o/r.git'' []
         else if length log = 2 then Exited 0 ''[...]'' []
         else Exited 1 [] ''HTTP 502'') [''gh --version'']
    = (Some \<lparr>pr_number = JNum 7, pr_title = JStr ''T'', pr_repo = ''o/r''\<rparr>,
       [''gh --version'', ''git config --get remote.origin.url'',
        ''gh pr list --repo o/r --json number,title,headRefName''])
   \<and> main_extractor (\<lambda>s. Some (JArr [JObj [(''number'', JNum 7), (''title'', JStr ''T'')]])) (\<lambda>j. ''7'')
      (\<lambda>log cmd. if length log = 0 then Exited 0 ''gh version 2'' []
         else if length log = 1 then Exited 0 ''https://github.com/o/r.git'' []
         else if length log = 2 then Exited 0 ''[...]'' []
         else Exited 1 [] ''HTTP 502'') Map.empty No_Fault
    = (1, Map.empty,
       [''gh --version'', ''git config --get remote.origin.url'',
        ''gh pr list --repo o/r --json number,title,headRefName'',
        comments_cmd (\<lambda>j. ''7'') \<lparr>pr_number = JNum 7, pr_title = JStr ''T'', pr_repo = ''o/r''\<rparr>])"
proof -
  let ?jl = "\<lambda>s :: string. Some (JArr [JObj [(''number'', JNum 7), (''title'', JStr ''T'')]])"
  let ?so = "\<lambda>j :: json. ''7''"
  let ?sh = "\<lambda>(log :: string list) (cmd :: string).
         if length log = 0 then Exited 0 ''gh version 2'' []
         else if length log = 1 then Exited 0 ''https://github.com/o/r.git'' []
         else if length log = 2 then Exited 0 ''[...]'' []
         else Exited 1 [] ''HTTP 502''"
  let ?info = "\<lparr>pr_number = JNum 7, pr_title = JStr ''T'', pr_repo = ''o/r''\<rparr>"
  let ?log1 = "[''gh --version'', ''git config --get remote.origin.url'',
        ''gh pr list --repo o/r --json number,title,headRefName'']"
  have v: "?sh [] ''gh --version'' = Exited 0 ''gh version 2'' []"
    by simp
  have s: "strip ''gh version 2'' \<noteq> []"
    by code_simp
  have g: "get_open_pr ?jl ?sh [''gh --version''] = (Some ?info, ?log1)"
    by code_simp
  have f: "\<forall>out err. ?sh ?log1 (comments_cmd ?so ?info) \<noteq> Exited 0 out err"
    by simp
  show ?thesis
    using v s g f
      no_report_when_fetch_fails [of ?sh "''gh version 2''" "[]" ?jl ?info ?log1 ?so Map.empty No_Fault]
    by simp
qed

end
